theory Spec2Isabelle
  imports Complex_Main "HOL-Library.Signed_Division"
begin

section \<open>Numbers, colours and parameters\<close>

text \<open>
  The galaxy generator of \<^verbatim>\<open>src/App.vue\<close> computes with JavaScript numbers. They are
  modelled as mathematical reals: \<open>+\<close>, \<open>*\<close>, \<open>/\<close>, \<open>cos\<close>, \<open>sin\<close> and \<open>pi\<close> are the
  exact operations, so the rounding of IEEE doubles and of the store into a
  \<^verbatim>\<open>Float32Array\<close> is outside the model. The one non-real value the function can produce
  from real parameters is \<^verbatim>\<open>NaN\<close> (from \<^verbatim>\<open>i % 0\<close> and from \<^verbatim>\<open>0 / 0\<close>); a number that may be
  \<^verbatim>\<open>NaN\<close> is a \<open>real option\<close>, with \<open>None\<close> for \<^verbatim>\<open>NaN\<close>.
\<close>

type_synonym jsnum = "real option"

text \<open>
  A \<^verbatim>\<open>THREE.Color\<close>: three channels. The constructor that parses \<^verbatim>\<open>"#ff5334"\<close> belongs
  to the rendering library, so the parameters hold the parsed colours.
\<close>

datatype color = Color (r: real) (g: real) (b: real)

text \<open>
  Modelled from the spec: \<^verbatim>\<open>THREE.Color.lerp\<close> is a method of the rendering library and
  is not in the source tree; it is the per-channel linear interpolation
  \<open>c1 + (c2 - c1) * alpha\<close> of section 4.1, step 6.
\<close>

definition lerp :: "color \<Rightarrow> color \<Rightarrow> real \<Rightarrow> color" where
  "lerp c1 c2 alpha =
     Color (r c1 + (r c2 - r c1) * alpha)
           (g c1 + (g c2 - g c1) * alpha)
           (b c1 + (b c2 - b c1) * alpha)"

text \<open>The object \<^verbatim>\<open>parameters\<close> (lines 14 to 24). \<^verbatim>\<open>size\<close> is \<open>size_p\<close> here.\<close>

record parameters =
  count :: int
  size_p :: real
  radius :: real
  branches :: int
  spin :: real
  randomness :: real
  randomnessPower :: real
  insideColor :: color
  outsideColor :: color

section \<open>The particle loop of generateGalaxy\<close>

text \<open>
  \<^verbatim>\<open>Math.random()\<close> is a global source. It is a sequence \<open>rnd :: nat \<Rightarrow> real\<close> of the
  values it will return, and the number of draws made so far is part of the state.
\<close>

datatype error = RangeError

record gen_state =
  drawn :: nat
  positions :: "jsnum list"
  colors :: "jsnum list"

text \<open>
  Line 57: \<^verbatim>\<open>((i % parameters.branches) / parameters.branches) * Math.PI * 2\<close>.
  \<^verbatim>\<open>%\<close> takes the sign of the dividend (\<open>smod\<close>); \<^verbatim>\<open>i % 0\<close> is \<^verbatim>\<open>NaN\<close>, and so is
  all that is computed from it.
\<close>

definition branchAngle :: "parameters \<Rightarrow> nat \<Rightarrow> jsnum" where
  "branchAngle p i =
     (if branches p = 0 then None
      else Some (real_of_int (int i smod branches p) / real_of_int (branches p) * pi * 2))"

text \<open>
  The body of the loop, lines 53 to 74, for index \<open>i\<close>. The four calls of
  \<^verbatim>\<open>Math.random()\<close> are made in the order radius, X, Y, Z. A write into a typed array
  out of its range is ignored, as \<open>list_update\<close> ignores it. In
  \<^verbatim>\<open>radius / parameters.radius\<close> a zero divisor means \<^verbatim>\<open>radius\<close> is \<open>u * 0 = 0\<close>, and
  \<^verbatim>\<open>0 / 0\<close> is \<^verbatim>\<open>NaN\<close>; \<^verbatim>\<open>lerp\<close> with \<^verbatim>\<open>NaN\<close> makes every channel \<^verbatim>\<open>NaN\<close>.
\<close>

definition loop_body :: "parameters \<Rightarrow> (nat \<Rightarrow> real) \<Rightarrow> nat \<Rightarrow> gen_state \<Rightarrow> gen_state" where
  "loop_body p rnd i s =
     (let i3 = i * 3;
          k = drawn s;
          radius_i = rnd k * radius p;
          spinAngle = radius_i * spin p;
          randomX = (rnd (k + 1) - 0.5) * randomness p * radius_i;
          randomY = (rnd (k + 2) - 0.5) * randomness p * radius_i;
          randomZ = (rnd (k + 3) - 0.5) * randomness p * radius_i;
          ps0 = (positions s)
                  [i3 := map_option (\<lambda>a. cos (a + spinAngle) * radius_i + randomX)
                           (branchAngle p i)];
          ps1 = ps0[i3 + 1 := Some randomY];
          ps2 = ps1[i3 + 2 := map_option (\<lambda>a. sin (a + spinAngle) * radius_i + randomZ)
                                (branchAngle p i)];
          alpha = (if radius p = 0 then None else Some (radius_i / radius p));
          mixedColor = map_option (lerp (insideColor p) (outsideColor p)) alpha;
          cs0 = (colors s)[i3 := map_option r mixedColor];
          cs1 = cs0[i3 + 1 := map_option g mixedColor];
          cs2 = cs1[i3 + 2 := map_option b mixedColor]
      in \<lparr>drawn = k + 4, positions = ps2, colors = cs2\<rparr>)"

text \<open>Line 52: \<^verbatim>\<open>for (let i = 0; i < parameters.count; i++)\<close>.\<close>

function galaxy_loop :: "parameters \<Rightarrow> (nat \<Rightarrow> real) \<Rightarrow> nat \<Rightarrow> gen_state \<Rightarrow> gen_state" where
  "galaxy_loop p rnd i s =
     (if int i < count p then galaxy_loop p rnd (Suc i) (loop_body p rnd i s) else s)"
  by pat_completeness auto
termination
  by (relation "measure (\<lambda>(p, rnd, i, s). nat (count p) - i)") auto

declare galaxy_loop.simps [simp del]

text \<open>
  Lines 45 to 75. \<^verbatim>\<open>new Float32Array(n)\<close> throws a \<^verbatim>\<open>RangeError\<close> for a negative
  length and is filled with zeros otherwise. \<open>k\<close> is the number of draws made before.
\<close>

definition Float32Array :: "int \<Rightarrow> error + jsnum list" where
  "Float32Array n = (if n < 0 then Inl RangeError else Inr (replicate (nat n) (Some 0)))"

definition generate :: "parameters \<Rightarrow> (nat \<Rightarrow> real) \<Rightarrow> nat \<Rightarrow> error + gen_state" where
  "generate p rnd k =
     (case Float32Array (count p * 3) of
        Inl e \<Rightarrow> Inl e
      | Inr ps \<Rightarrow>
          (case Float32Array (count p * 3) of
             Inl e \<Rightarrow> Inl e
           | Inr cs \<Rightarrow> Inr (galaxy_loop p rnd 0 \<lparr>drawn = k, positions = ps, colors = cs\<rparr>)))"

section \<open>The scene state and generateGalaxy\<close>

text \<open>
  The module variables \<^verbatim>\<open>geometry\<close>, \<^verbatim>\<open>material\<close>, \<^verbatim>\<open>points\<close> and \<^verbatim>\<open>scene\<close> (lines 26 to
  29) hold references or \<^verbatim>\<open>null\<close>. Objects live in a store; a scene is its list of
  children. \<open>disposed\<close> is the set of resources whose \<^verbatim>\<open>dispose()\<close> was called and
  \<open>calls\<close> is the sequence of calls made to the rendering library, oldest first. Of a
  \<^verbatim>\<open>PointsMaterial\<close> only the size is kept, its other settings being constants (lines 83
  to 86). \<open>rng\<close> is the number of draws \<^verbatim>\<open>Math.random()\<close> has made.
\<close>

type_synonym ref = nat

datatype obj =
    BufferGeometry "jsnum list option" "jsnum list option"
  | PointsMaterial real
  | Points ref ref

datatype call = GeometryDispose ref | MaterialDispose ref | SceneRemove ref | SceneAdd ref

record world =
  scene :: "ref list option"
  geometry :: "ref option"
  material :: "ref option"
  points :: "ref option"
  store :: "ref \<rightharpoonup> obj"
  fresh :: ref
  disposed :: "ref set"
  rng :: nat
  calls :: "call list"

text \<open>\<^verbatim>\<open>new\<close>: the object gets the next unused reference.\<close>

definition new_obj :: "obj \<Rightarrow> world \<Rightarrow> ref \<times> world" where
  "new_obj ob w = (fresh w, w\<lparr>store := (store w)(fresh w \<mapsto> ob), fresh := Suc (fresh w)\<rparr>)"

text \<open>
  \<^verbatim>\<open>geometry?.dispose()\<close> and \<^verbatim>\<open>material?.dispose()\<close>: nothing happens on \<^verbatim>\<open>null\<close>.
  \<^verbatim>\<open>dispose\<close>, \<^verbatim>\<open>scene.remove\<close> and \<^verbatim>\<open>scene.add\<close> are methods of the rendering library
  (section 6 of the specification); they are modelled by what they do to the set of
  disposed resources and to the children of the scene.
\<close>

definition geometry_dispose :: "world \<Rightarrow> world" where
  "geometry_dispose w =
     (case geometry w of
        None \<Rightarrow> w
      | Some gr \<Rightarrow> w\<lparr>disposed := insert gr (disposed w),
                     calls := calls w @ [GeometryDispose gr]\<rparr>)"

definition material_dispose :: "world \<Rightarrow> world" where
  "material_dispose w =
     (case material w of
        None \<Rightarrow> w
      | Some mr \<Rightarrow> w\<lparr>disposed := insert mr (disposed w),
                     calls := calls w @ [MaterialDispose mr]\<rparr>)"

text \<open>
  \<^verbatim>\<open>scene.remove(x)\<close> takes the first occurrence of \<open>x\<close> out of the children, if there is
  one; \<^verbatim>\<open>scene.add(x)\<close> appends an object that has no parent.
\<close>

definition scene_remove :: "ref \<Rightarrow> world \<Rightarrow> world" where
  "scene_remove x w =
     w\<lparr>scene := map_option (remove1 x) (scene w), calls := calls w @ [SceneRemove x]\<rparr>"

definition scene_add :: "ref \<Rightarrow> world \<Rightarrow> world" where
  "scene_add x w =
     w\<lparr>scene := map_option (\<lambda>ch. ch @ [x]) (scene w), calls := calls w @ [SceneAdd x]\<rparr>"

text \<open>Lines 36 to 40: the previous galaxy is taken down.\<close>

definition remove_old :: "world \<Rightarrow> world" where
  "remove_old w =
     (case points w of
        None \<Rightarrow> w
      | Some pr \<Rightarrow> scene_remove pr (material_dispose (geometry_dispose w)))"

text \<open>Lines 77 to 91: the attributes are set, the material and the points object are made.\<close>

definition publish :: "parameters \<Rightarrow> ref \<Rightarrow> gen_state \<Rightarrow> world \<Rightarrow> world" where
  "publish p gr s w =
     (let w3 = w\<lparr>store := (store w)(gr \<mapsto> BufferGeometry (Some (positions s)) (Some (colors s))),
                 rng := drawn s\<rparr>;
          (mr, w4) = new_obj (PointsMaterial (size_p p)) w3;
          w5 = w4\<lparr>material := Some mr\<rparr>;
          (pr, w6) = new_obj (Points gr mr) w5;
          w7 = w6\<lparr>points := Some pr\<rparr>
      in scene_add pr w7)"

text \<open>
  \<^verbatim>\<open>generateGalaxy\<close>, lines 32 to 92. The result is how the call ended (\<open>Inl\<close> an
  exception thrown) and the state it left: what was done before a throw stays done.
\<close>

definition generateGalaxy ::
  "parameters \<Rightarrow> (nat \<Rightarrow> real) \<Rightarrow> world \<Rightarrow> (error + unit) \<times> world" where
  "generateGalaxy p rnd w =
     (case scene w of
        None \<Rightarrow> (Inr (), w)
      | Some ch \<Rightarrow>
          (let w1 = remove_old w;
               (gr, w2) = new_obj (BufferGeometry None None) w1;
               w2 = w2\<lparr>geometry := Some gr\<rparr>
           in case generate p rnd (rng w2) of
                Inl e \<Rightarrow> (Inl e, w2)
              | Inr s \<Rightarrow> (Inr (), publish p gr s w2)))"

section \<open>Auxiliary definitions for the statements\<close>

text \<open>The state in which the loop starts: both arrays just allocated, \<open>k\<close> draws made.\<close>

definition zeroed :: "parameters \<Rightarrow> nat \<Rightarrow> gen_state" where
  "zeroed p k = \<lparr>drawn = k, positions = replicate (nat (count p * 3)) (Some 0),
                 colors = replicate (nat (count p * 3)) (Some 0)\<rparr>"

text \<open>
  The jitter as section 4.1, step 4 of the specification words it, for comparison with
  what the loop body computes: the signed draw \<open>u1 - 0.5\<close> times the sign-preserving power
  of a second draw \<open>u2\<close>, times \<open>randomness\<close> and the particle's radius.
\<close>

definition sign_preserving_power :: "real \<Rightarrow> real \<Rightarrow> real" where
  "sign_preserving_power x e = sgn x * (\<bar>x\<bar> powr e)"

definition spec_jitter :: "parameters \<Rightarrow> real \<Rightarrow> real \<Rightarrow> real \<Rightarrow> real" where
  "spec_jitter p u1 u2 radius_i =
     (u1 - 0.5) * sign_preserving_power u2 (randomnessPower p) * randomness p * radius_i"

text \<open>Concrete inputs: two constant random sources and a one-particle parameter set.\<close>

definition quarter_source :: "nat \<Rightarrow> real" where
  "quarter_source n = 1 / 4"

definition half_source :: "nat \<Rightarrow> real" where
  "half_source n = 1 / 2"

definition jitter_parameters :: parameters where
  "jitter_parameters =
     \<lparr>count = 1, size_p = 1 / 1000, radius = 10, branches = 3, spin = 1, randomness = 1,
      randomnessPower = 2, insideColor = Color 1 0 0, outsideColor = Color 0 0 1\<rparr>"

definition nine_parameters :: parameters where
  "nine_parameters =
     \<lparr>count = 9, size_p = 1 / 1000, radius = 10, branches = 3, spin = 1, randomness = 3 / 10,
      randomnessPower = 3, insideColor = Color 1 (1 / 3) (1 / 5), outsideColor = Color 0 (1 / 5) (1 / 3)\<rparr>"

definition quarter_then_half :: "nat \<Rightarrow> real" where
  "quarter_then_half n = (if n < 4 then 1 / 4 else 1 / 2)"

text \<open>
  The states that a sequence of \<^verbatim>\<open>generateGalaxy\<close> calls on a new scene passes through:
  the scene holds the active points object and nothing else, that object is made of the
  current geometry and material, and these are not disposed.
\<close>

definition galaxy_inv :: "world \<Rightarrow> bool" where
  "galaxy_inv w \<longleftrightarrow>
     (\<forall>x \<in> disposed w. x < fresh w) \<and>
     (case points w of
        None \<Rightarrow> scene w = Some []
      | Some pr \<Rightarrow>
          scene w = Some [pr] \<and>
          (case (geometry w, material w) of
             (Some gr, Some mr) \<Rightarrow>
                store w pr = Some (Points gr mr) \<and> gr < fresh w \<and> mr < fresh w \<and>
                gr \<notin> disposed w \<and> mr \<notin> disposed w
           | _ \<Rightarrow> False))"

text \<open>
  Concrete states: the module before \<^verbatim>\<open>onMounted\<close> (everything \<^verbatim>\<open>null\<close>), after line 98
  (an empty scene), and with one galaxy of no particles on display.
\<close>

definition unmounted_world :: world where
  "unmounted_world =
     \<lparr>scene = None, geometry = None, material = None, points = None, store = Map.empty,
      fresh = 0, disposed = {}, rng = 0, calls = []\<rparr>"

definition mounted_world :: world where
  "mounted_world = unmounted_world\<lparr>scene := Some []\<rparr>"

definition active_world :: world where
  "active_world =
     \<lparr>scene = Some [2], geometry = Some 0, material = Some 1, points = Some 2,
      store = [0 \<mapsto> BufferGeometry (Some []) (Some []), 1 \<mapsto> PointsMaterial (1 / 1000),
               2 \<mapsto> Points 0 1],
      fresh = 3, disposed = {}, rng = 0, calls = [SceneAdd 2]\<rparr>"

definition invalid_parameters :: parameters where
  "invalid_parameters = nine_parameters\<lparr>count := 0, branches := 0, radius := 0\<rparr>"

text \<open>
  The parameters as lines 14 to 24 set them; the channels of a colour are the bytes of its
  hex string over 255.
\<close>

definition default_parameters :: parameters where
  "default_parameters =
     \<lparr>count = 100000, size_p = 1 / 1000, radius = 10, branches = 3, spin = 1,
      randomness = 3 / 10, randomnessPower = 3,
      insideColor = Color (255 / 255) (83 / 255) (52 / 255),
      outsideColor = Color (5 / 255) (51 / 255) (92 / 255)\<rparr>"

text \<open>
  Particle \<open>i\<close> of the result \<open>s\<close> lies on the arm of angle \<open>a\<close>: its X and Z slots hold
  the point at angle \<open>a + spinAngle\<close> of the circle of radius \<open>radius_i\<close>, moved by the
  jitters of lines 60 and 62. \<open>k\<close> is the number of draws made before the run.
\<close>

definition on_arm :: "parameters \<Rightarrow> (nat \<Rightarrow> real) \<Rightarrow> nat \<Rightarrow> gen_state \<Rightarrow> nat \<Rightarrow> real \<Rightarrow> bool" where
  "on_arm p rnd k s i a \<longleftrightarrow>
     (let radius_i = rnd (k + 4 * i) * radius p;
          spinAngle = radius_i * spin p
      in positions s ! (3 * i) =
           Some (cos (a + spinAngle) * radius_i
                 + (rnd (k + 4 * i + 1) - 0.5) * randomness p * radius_i) \<and>
         positions s ! (3 * i + 2) =
           Some (sin (a + spinAngle) * radius_i
                 + (rnd (k + 4 * i + 3) - 0.5) * randomness p * radius_i))"

text \<open>The two arrays of a result, without the count of draws.\<close>

definition buffers :: "gen_state \<Rightarrow> jsnum list \<times> jsnum list" where
  "buffers s = (positions s, colors s)"

section \<open>The loop, slot by slot\<close>

lemma loop_body_drawn: "drawn (loop_body p rnd i s) = drawn s + 4"
  by (simp add: loop_body_def Let_def)

lemma loop_body_length:
  "length (positions (loop_body p rnd i s)) = length (positions s)"
  "length (colors (loop_body p rnd i s)) = length (colors s)"
  by (simp_all add: loop_body_def Let_def)

lemma loop_body_frame:
  assumes "m < 3 * i"
  shows "positions (loop_body p rnd i s) ! m = positions s ! m"
    and "colors (loop_body p rnd i s) ! m = colors s ! m"
  using assms by (simp_all add: loop_body_def Let_def)

lemma loop_body_written:
  assumes "drawn s = drawn t" and "c < 3"
    and "3 * i + 2 < length (positions s)" and "3 * i + 2 < length (positions t)"
    and "3 * i + 2 < length (colors s)" and "3 * i + 2 < length (colors t)"
  shows "positions (loop_body p rnd i s) ! (3 * i + c) = positions (loop_body p rnd i t) ! (3 * i + c)"
    and "colors (loop_body p rnd i s) ! (3 * i + c) = colors (loop_body p rnd i t) ! (3 * i + c)"
  using assms by (simp_all add: loop_body_def Let_def nth_list_update mult.commute)

lemma galaxy_loop_drawn:
  "drawn (galaxy_loop p rnd i s) = drawn s + 4 * (nat (count p) - i)"
proof (induction p rnd i s rule: galaxy_loop.induct)
  case (1 p rnd i s)
  show ?case
  proof (cases "int i < count p")
    case True
    then have "nat (count p) - i = Suc (nat (count p) - Suc i)" by linarith
    with True 1 show ?thesis
      by (subst galaxy_loop.simps) (simp add: loop_body_drawn)
  next
    case False
    then show ?thesis by (subst galaxy_loop.simps) simp
  qed
qed

lemma galaxy_loop_length:
  "length (positions (galaxy_loop p rnd i s)) = length (positions s) \<and>
   length (colors (galaxy_loop p rnd i s)) = length (colors s)"
proof (induction p rnd i s rule: galaxy_loop.induct)
  case (1 p rnd i s)
  show ?case
  proof (cases "int i < count p")
    case True
    with 1 show ?thesis
      by (subst (1 2) galaxy_loop.simps) (simp add: loop_body_length)
  next
    case False
    then show ?thesis by (subst (1 2) galaxy_loop.simps) simp
  qed
qed

lemma galaxy_loop_frame:
  "m < 3 * i \<Longrightarrow>
   positions (galaxy_loop p rnd i s) ! m = positions s ! m \<and>
   colors (galaxy_loop p rnd i s) ! m = colors s ! m"
proof (induction p rnd i s rule: galaxy_loop.induct)
  case (1 p rnd i s)
  show ?case
  proof (cases "int i < count p")
    case True
    from 1(2) have "m < 3 * Suc i" by simp
    with 1(1) [OF True] have
      "positions (galaxy_loop p rnd (Suc i) (loop_body p rnd i s)) ! m = positions (loop_body p rnd i s) ! m \<and>
       colors (galaxy_loop p rnd (Suc i) (loop_body p rnd i s)) ! m = colors (loop_body p rnd i s) ! m"
      by blast
    with True 1(2) show ?thesis
      by (subst (1 2) galaxy_loop.simps) (simp add: loop_body_frame)
  next
    case False
    then show ?thesis by (subst (1 2) galaxy_loop.simps) simp
  qed
qed

lemma galaxy_loop_slot:
  assumes "length (positions s) = 3 * nat (count p)"
    and "length (colors s) = 3 * nat (count p)"
    and "i \<le> j" and "int j < count p" and "c < 3"
  shows "positions (galaxy_loop p rnd i s) ! (3 * j + c) =
           positions (loop_body p rnd j (s\<lparr>drawn := drawn s + 4 * (j - i)\<rparr>)) ! (3 * j + c) \<and>
         colors (galaxy_loop p rnd i s) ! (3 * j + c) =
           colors (loop_body p rnd j (s\<lparr>drawn := drawn s + 4 * (j - i)\<rparr>)) ! (3 * j + c)"
  using assms
proof (induction p rnd i s rule: galaxy_loop.induct)
  case (1 p rnd i s)
  let ?s1 = "loop_body p rnd i s"
  from 1(5) have lt: "int i < count p" using 1(4) by linarith
  have unfold: "galaxy_loop p rnd i s = galaxy_loop p rnd (Suc i) ?s1"
    using lt by (subst galaxy_loop.simps) simp
  have inrange: "3 * j + 2 < 3 * nat (count p)" using 1(5) by linarith
  show ?case
  proof (cases "j = i")
    case True
    have "3 * j + c < 3 * Suc i" using True 1(6) by simp
    then have "positions (galaxy_loop p rnd (Suc i) ?s1) ! (3 * j + c) = positions ?s1 ! (3 * j + c) \<and>
               colors (galaxy_loop p rnd (Suc i) ?s1) ! (3 * j + c) = colors ?s1 ! (3 * j + c)"
      by (rule galaxy_loop_frame)
    with True unfold show ?thesis by simp
  next
    case False
    with 1(4) have le: "Suc i \<le> j" by simp
    have ih: "positions (galaxy_loop p rnd (Suc i) ?s1) ! (3 * j + c) =
           positions (loop_body p rnd j (?s1\<lparr>drawn := drawn ?s1 + 4 * (j - Suc i)\<rparr>)) ! (3 * j + c) \<and>
         colors (galaxy_loop p rnd (Suc i) ?s1) ! (3 * j + c) =
           colors (loop_body p rnd j (?s1\<lparr>drawn := drawn ?s1 + 4 * (j - Suc i)\<rparr>)) ! (3 * j + c)"
      using 1(1) [OF lt _ _ le 1(5) 1(6)] 1(2) 1(3) by (simp add: loop_body_length)
    have d: "drawn ?s1 + 4 * (j - Suc i) = drawn s + 4 * (j - i)"
      using le by (simp add: loop_body_drawn)
    have "positions (loop_body p rnd j (?s1\<lparr>drawn := drawn ?s1 + 4 * (j - Suc i)\<rparr>)) ! (3 * j + c) =
          positions (loop_body p rnd j (s\<lparr>drawn := drawn s + 4 * (j - i)\<rparr>)) ! (3 * j + c)"
      using d 1(2) 1(3) 1(6) inrange by (intro loop_body_written) (simp_all add: loop_body_length)
    moreover have "colors (loop_body p rnd j (?s1\<lparr>drawn := drawn ?s1 + 4 * (j - Suc i)\<rparr>)) ! (3 * j + c) =
          colors (loop_body p rnd j (s\<lparr>drawn := drawn s + 4 * (j - i)\<rparr>)) ! (3 * j + c)"
      using d 1(2) 1(3) 1(6) inrange by (intro loop_body_written) (simp_all add: loop_body_length)
    ultimately show ?thesis using ih unfold by simp
  qed
qed

lemma generate_Inr:
  "0 \<le> count p \<Longrightarrow> generate p rnd k = Inr (galaxy_loop p rnd 0 (zeroed p k))"
  by (simp add: generate_def Float32Array_def zeroed_def)

lemma generate_Inl:
  "count p < 0 \<Longrightarrow> generate p rnd k = Inl RangeError"
  by (simp add: generate_def Float32Array_def)

lemma nat_count3: "nat (count p * 3) = 3 * nat (count p)"
  by (simp add: nat_mult_distrib mult.commute)

lemma generate_slot:
  assumes "int j < count p" and "c < 3"
    and "drawn t = k + 4 * j"
    and "length (positions t) = nat (count p * 3)"
    and "length (colors t) = nat (count p * 3)"
  shows "positions (galaxy_loop p rnd 0 (zeroed p k)) ! (3 * j + c) =
           positions (loop_body p rnd j t) ! (3 * j + c) \<and>
         colors (galaxy_loop p rnd 0 (zeroed p k)) ! (3 * j + c) =
           colors (loop_body p rnd j t) ! (3 * j + c)"
proof -
  let ?z = "zeroed p k"
  have len: "length (positions ?z) = 3 * nat (count p)" "length (colors ?z) = 3 * nat (count p)"
    by (simp_all add: zeroed_def nat_count3)
  have inrange: "3 * j + 2 < 3 * nat (count p)" using assms(1) by linarith
  have slot: "positions (galaxy_loop p rnd 0 ?z) ! (3 * j + c) =
           positions (loop_body p rnd j (?z\<lparr>drawn := drawn ?z + 4 * (j - 0)\<rparr>)) ! (3 * j + c) \<and>
         colors (galaxy_loop p rnd 0 ?z) ! (3 * j + c) =
           colors (loop_body p rnd j (?z\<lparr>drawn := drawn ?z + 4 * (j - 0)\<rparr>)) ! (3 * j + c)"
    using len assms(1,2) by (intro galaxy_loop_slot) simp_all
  have d: "drawn (?z\<lparr>drawn := drawn ?z + 4 * (j - 0)\<rparr>) = drawn t"
    using assms(3) by (simp add: zeroed_def)
  have "positions (loop_body p rnd j (?z\<lparr>drawn := drawn ?z + 4 * (j - 0)\<rparr>)) ! (3 * j + c) =
        positions (loop_body p rnd j t) ! (3 * j + c)"
    using d assms(2,4,5) len inrange by (intro loop_body_written) (simp_all add: nat_count3)
  moreover have "colors (loop_body p rnd j (?z\<lparr>drawn := drawn ?z + 4 * (j - 0)\<rparr>)) ! (3 * j + c) =
        colors (loop_body p rnd j t) ! (3 * j + c)"
    using d assms(2,4,5) len inrange by (intro loop_body_written) (simp_all add: nat_count3)
  ultimately show ?thesis using slot by simp
qed

lemma loop_body_values:
  assumes "3 * i + 2 < length (positions t)" and "3 * i + 2 < length (colors t)"
  shows "positions (loop_body p rnd i t) ! (3 * i) =
           map_option (\<lambda>a. cos (a + rnd (drawn t) * radius p * spin p) * (rnd (drawn t) * radius p)
                            + (rnd (drawn t + 1) - 1 / 2) * randomness p * (rnd (drawn t) * radius p))
             (branchAngle p i)"
    and "positions (loop_body p rnd i t) ! (3 * i + 1) =
           Some ((rnd (drawn t + 2) - 1 / 2) * randomness p * (rnd (drawn t) * radius p))"
    and "positions (loop_body p rnd i t) ! (3 * i + 2) =
           map_option (\<lambda>a. sin (a + rnd (drawn t) * radius p * spin p) * (rnd (drawn t) * radius p)
                            + (rnd (drawn t + 3) - 1 / 2) * randomness p * (rnd (drawn t) * radius p))
             (branchAngle p i)"
    and "colors (loop_body p rnd i t) ! (3 * i) =
           (if radius p = 0 then None
            else Some (r (insideColor p) + (r (outsideColor p) - r (insideColor p))
                         * (rnd (drawn t) * radius p / radius p)))"
    and "colors (loop_body p rnd i t) ! (3 * i + 1) =
           (if radius p = 0 then None
            else Some (g (insideColor p) + (g (outsideColor p) - g (insideColor p))
                         * (rnd (drawn t) * radius p / radius p)))"
    and "colors (loop_body p rnd i t) ! (3 * i + 2) =
           (if radius p = 0 then None
            else Some (b (insideColor p) + (b (outsideColor p) - b (insideColor p))
                         * (rnd (drawn t) * radius p / radius p)))"
  using assms by (simp_all add: loop_body_def Let_def lerp_def mult.commute [of i 3])

lemma generate_particle:
  assumes "int i < count p"
  shows "\<exists>s. generate p rnd k = Inr s \<and>
    drawn s = k + 4 * nat (count p) \<and>
    length (positions s) = nat (count p * 3) \<and>
    length (colors s) = nat (count p * 3) \<and>
    positions s ! (3 * i) =
      map_option (\<lambda>a. cos (a + rnd (k + 4 * i) * radius p * spin p) * (rnd (k + 4 * i) * radius p)
                       + (rnd (k + 4 * i + 1) - 1 / 2) * randomness p * (rnd (k + 4 * i) * radius p))
        (branchAngle p i) \<and>
    positions s ! (3 * i + 1) =
      Some ((rnd (k + 4 * i + 2) - 1 / 2) * randomness p * (rnd (k + 4 * i) * radius p)) \<and>
    positions s ! (3 * i + 2) =
      map_option (\<lambda>a. sin (a + rnd (k + 4 * i) * radius p * spin p) * (rnd (k + 4 * i) * radius p)
                       + (rnd (k + 4 * i + 3) - 1 / 2) * randomness p * (rnd (k + 4 * i) * radius p))
        (branchAngle p i) \<and>
    colors s ! (3 * i) =
      (if radius p = 0 then None
       else Some (r (insideColor p) + (r (outsideColor p) - r (insideColor p))
                    * (rnd (k + 4 * i) * radius p / radius p))) \<and>
    colors s ! (3 * i + 1) =
      (if radius p = 0 then None
       else Some (g (insideColor p) + (g (outsideColor p) - g (insideColor p))
                    * (rnd (k + 4 * i) * radius p / radius p))) \<and>
    colors s ! (3 * i + 2) =
      (if radius p = 0 then None
       else Some (b (insideColor p) + (b (outsideColor p) - b (insideColor p))
                    * (rnd (k + 4 * i) * radius p / radius p)))"
proof -
  let ?t = "zeroed p (k + 4 * i)"
  let ?s = "galaxy_loop p rnd 0 (zeroed p k)"
  from assms have nonneg: "0 \<le> count p" by linarith
  have gen: "generate p rnd k = Inr ?s" using nonneg by (rule generate_Inr)
  have t: "drawn ?t = k + 4 * i" "length (positions ?t) = nat (count p * 3)"
    "length (colors ?t) = nat (count p * 3)"
    by (simp_all add: zeroed_def)
  have inrange: "3 * i + 2 < length (positions ?t)" "3 * i + 2 < length (colors ?t)"
    using assms by (simp_all add: zeroed_def nat_count3)
  have s0: "positions ?s ! (3 * i) = positions (loop_body p rnd i ?t) ! (3 * i) \<and>
            colors ?s ! (3 * i) = colors (loop_body p rnd i ?t) ! (3 * i)"
    using generate_slot [OF assms _ t, of 0 rnd] by simp
  have s1: "positions ?s ! (3 * i + 1) = positions (loop_body p rnd i ?t) ! (3 * i + 1) \<and>
            colors ?s ! (3 * i + 1) = colors (loop_body p rnd i ?t) ! (3 * i + 1)"
    using generate_slot [OF assms _ t, of 1 rnd] by simp
  have s2: "positions ?s ! (3 * i + 2) = positions (loop_body p rnd i ?t) ! (3 * i + 2) \<and>
            colors ?s ! (3 * i + 2) = colors (loop_body p rnd i ?t) ! (3 * i + 2)"
    using generate_slot [OF assms _ t, of 2 rnd] by simp
  have d: "drawn ?s = k + 4 * nat (count p)"
    by (simp add: galaxy_loop_drawn zeroed_def)
  have l: "length (positions ?s) = nat (count p * 3)" "length (colors ?s) = nat (count p * 3)"
    by (simp_all add: galaxy_loop_length zeroed_def)
  show ?thesis
    unfolding gen using d l s0 s1 s2 loop_body_values [OF inrange, of p rnd]
    by (simp add: t(1))
qed

lemma loop_body_randomnessPower:
  "loop_body (p\<lparr>randomnessPower := x\<rparr>) rnd i s = loop_body p rnd i s"
  by (simp add: loop_body_def branchAngle_def Let_def)

lemma galaxy_loop_randomnessPower:
  "galaxy_loop (p\<lparr>randomnessPower := x\<rparr>) rnd i s = galaxy_loop p rnd i s"
proof (induction p rnd i s rule: galaxy_loop.induct)
  case (1 p rnd i s)
  show ?case
  proof (cases "int i < count p")
    case True
    with 1 show ?thesis
      by (subst (1 2) galaxy_loop.simps) (simp add: loop_body_randomnessPower)
  next
    case False
    then show ?thesis by (subst (1 2) galaxy_loop.simps) simp
  qed
qed

lemma generate_randomnessPower:
  "generate (p\<lparr>randomnessPower := x\<rparr>) rnd k = generate p rnd k"
  by (simp add: generate_def galaxy_loop_randomnessPower split: sum.splits)


lemma smod_nat_pos: "0 < l \<Longrightarrow> int i smod l = int i mod l"
  by (cases "i = 0") (simp_all add: signed_modulo_int_def)

lemma generate_on_arm:
  assumes "int i < count p" and "0 < branches p"
  shows "generate p rnd k = Inr (galaxy_loop p rnd 0 (zeroed p k)) \<and>
    on_arm p rnd k (galaxy_loop p rnd 0 (zeroed p k)) i
      (real_of_int (int i mod branches p) / real_of_int (branches p) * (2 * pi))"
proof -
  from assms(1) have "0 \<le> count p" by linarith
  then have gen: "generate p rnd k = Inr (galaxy_loop p rnd 0 (zeroed p k))"
    by (rule generate_Inr)
  have angle: "branchAngle p i =
      Some (real_of_int (int i mod branches p) / real_of_int (branches p) * (2 * pi))"
    using assms(2) by (simp add: branchAngle_def smod_nat_pos)
  from generate_particle [OF assms(1), of rnd k] gen angle show ?thesis
    by (simp add: on_arm_def Let_def)
qed

lemma loop_body_cong:
  assumes "\<forall>n < 4. rnd (drawn s + n) = rnd' (drawn s + n)"
  shows "loop_body p rnd i s = loop_body p rnd' i s"
proof -
  have "rnd (drawn s) = rnd' (drawn s)" using assms [rule_format, of 0] by simp
  moreover have "rnd (drawn s + 1) = rnd' (drawn s + 1)" using assms [rule_format, of 1] by simp
  moreover have "rnd (drawn s + 2) = rnd' (drawn s + 2)" using assms [rule_format, of 2] by simp
  moreover have "rnd (drawn s + 3) = rnd' (drawn s + 3)" using assms [rule_format, of 3] by simp
  ultimately show ?thesis by (simp add: loop_body_def)
qed

lemma galaxy_loop_cong:
  "\<forall>n < 4 * (nat (count p) - i). rnd (drawn s + n) = rnd' (drawn s + n) \<Longrightarrow>
   galaxy_loop p rnd i s = galaxy_loop p rnd' i s"
proof (induction p rnd i s rule: galaxy_loop.induct)
  case (1 p rnd i s)
  show ?case
  proof (cases "int i < count p")
    case True
    then have split: "nat (count p) - i = Suc (nat (count p) - Suc i)" by linarith
    have body: "loop_body p rnd i s = loop_body p rnd' i s"
      using 1(2) split by (intro loop_body_cong) simp
    have rest: "\<forall>n < 4 * (nat (count p) - Suc i).
        rnd (drawn (loop_body p rnd i s) + n) = rnd' (drawn (loop_body p rnd i s) + n)"
    proof (intro allI impI)
      fix n assume "n < 4 * (nat (count p) - Suc i)"
      then have "4 + n < 4 * (nat (count p) - i)" using split by simp
      with 1(2) have "rnd (drawn s + (4 + n)) = rnd' (drawn s + (4 + n))" by blast
      then show "rnd (drawn (loop_body p rnd i s) + n) = rnd' (drawn (loop_body p rnd i s) + n)"
        by (simp add: loop_body_drawn add.assoc)
    qed
    from 1(1) [OF True rest] body True show ?thesis
      by (subst (1 2) galaxy_loop.simps) simp
  next
    case False
    then show ?thesis by (subst (1 2) galaxy_loop.simps) simp
  qed
qed

lemma loop_body_shift:
  "loop_body p rnd i (s\<lparr>drawn := drawn s + d\<rparr>) =
     (loop_body p (\<lambda>n. rnd (n + d)) i s)\<lparr>drawn := drawn (loop_body p (\<lambda>n. rnd (n + d)) i s) + d\<rparr>"
  by (simp add: loop_body_def Let_def add.assoc add.commute add.left_commute)

lemma galaxy_loop_shift:
  "\<forall>n. rnd2 n = rnd (n + d) \<Longrightarrow>
   galaxy_loop p rnd i (s\<lparr>drawn := drawn s + d\<rparr>) =
     (galaxy_loop p rnd2 i s)\<lparr>drawn := drawn (galaxy_loop p rnd2 i s) + d\<rparr>"
proof (induction p rnd2 i s rule: galaxy_loop.induct)
  case (1 p rnd2 i s)
  from 1(2) have fn: "rnd2 = (\<lambda>n. rnd (n + d))" by auto
  show ?case
  proof (cases "int i < count p")
    case True
    let ?s1 = "loop_body p rnd2 i s"
    have "galaxy_loop p rnd i (s\<lparr>drawn := drawn s + d\<rparr>) =
          galaxy_loop p rnd (Suc i) (loop_body p rnd i (s\<lparr>drawn := drawn s + d\<rparr>))"
      using True by (subst galaxy_loop.simps) simp
    also have "loop_body p rnd i (s\<lparr>drawn := drawn s + d\<rparr>) = ?s1\<lparr>drawn := drawn ?s1 + d\<rparr>"
      unfolding fn by (rule loop_body_shift)
    also have "galaxy_loop p rnd (Suc i) (?s1\<lparr>drawn := drawn ?s1 + d\<rparr>) =
        (galaxy_loop p rnd2 (Suc i) ?s1)\<lparr>drawn := drawn (galaxy_loop p rnd2 (Suc i) ?s1) + d\<rparr>"
      using 1(1) [OF True 1(2)] .
    also have "galaxy_loop p rnd2 (Suc i) ?s1 = galaxy_loop p rnd2 i s"
      using True by (subst (2) galaxy_loop.simps) simp
    finally show ?thesis .
  next
    case False
    then show ?thesis by (subst (1 2 3) galaxy_loop.simps) simp
  qed
qed

lemma generate_shift:
  "map_sum id buffers (generate p rnd k) = map_sum id buffers (generate p (\<lambda>n. rnd (n + k)) 0)"
proof (cases "0 \<le> count p")
  case True
  have z: "zeroed p k = (zeroed p 0)\<lparr>drawn := drawn (zeroed p 0) + k\<rparr>"
    by (simp add: zeroed_def)
  have "galaxy_loop p rnd 0 (zeroed p k) =
      (galaxy_loop p (\<lambda>n. rnd (n + k)) 0 (zeroed p 0))
        \<lparr>drawn := drawn (galaxy_loop p (\<lambda>n. rnd (n + k)) 0 (zeroed p 0)) + k\<rparr>"
    unfolding z by (rule galaxy_loop_shift) simp
  then have "buffers (galaxy_loop p rnd 0 (zeroed p k)) =
      buffers (galaxy_loop p (\<lambda>n. rnd (n + k)) 0 (zeroed p 0))"
    by (simp add: buffers_def)
  with True show ?thesis by (simp add: generate_Inr)
next
  case False
  then show ?thesis by (simp add: generate_Inl)
qed

section \<open>generateGalaxy, field by field\<close>

lemma remove_old_fields:
  "geometry (remove_old w) = geometry w" "material (remove_old w) = material w"
  "points (remove_old w) = points w" "store (remove_old w) = store w"
  "fresh (remove_old w) = fresh w" "rng (remove_old w) = rng w"
  by (simp_all add: remove_old_def scene_remove_def material_dispose_def geometry_dispose_def
      split: option.splits)

lemma remove_old_scene:
  "scene (remove_old w) =
     (case points w of None \<Rightarrow> scene w | Some pr \<Rightarrow> map_option (remove1 pr) (scene w))"
  by (simp add: remove_old_def scene_remove_def material_dispose_def geometry_dispose_def
      split: option.splits)

lemma remove_old_disposed:
  "disposed (remove_old w) =
     (case points w of None \<Rightarrow> disposed w
      | Some pr \<Rightarrow> disposed w \<union> set_option (geometry w) \<union> set_option (material w))"
  by (auto simp: remove_old_def scene_remove_def material_dispose_def geometry_dispose_def
      split: option.splits)

lemma remove_old_calls:
  "calls (remove_old w) =
     (case points w of None \<Rightarrow> calls w
      | Some pr \<Rightarrow>
          calls w @ (case geometry w of None \<Rightarrow> [] | Some gr \<Rightarrow> [GeometryDispose gr])
                  @ (case material w of None \<Rightarrow> [] | Some mr \<Rightarrow> [MaterialDispose mr])
                  @ [SceneRemove pr])"
  by (simp add: remove_old_def scene_remove_def material_dispose_def geometry_dispose_def
      split: option.splits)

lemma generateGalaxy_returns:
  assumes "scene w = Some ch" and "0 \<le> count p"
  shows "\<exists>w'. generateGalaxy p rnd w = (Inr (), w') \<and>
    geometry w' = Some (fresh w) \<and> material w' = Some (fresh w + 1) \<and>
    points w' = Some (fresh w + 2) \<and> fresh w' = fresh w + 3 \<and>
    scene w' = map_option (\<lambda>ch. ch @ [fresh w + 2]) (scene (remove_old w)) \<and>
    disposed w' = disposed (remove_old w) \<and>
    calls w' = calls (remove_old w) @ [SceneAdd (fresh w + 2)] \<and>
    rng w' = rng w + 4 * nat (count p) \<and>
    store w' = (store w)
      (fresh w \<mapsto> BufferGeometry
          (Some (positions (galaxy_loop p rnd 0 (zeroed p (rng w)))))
          (Some (colors (galaxy_loop p rnd 0 (zeroed p (rng w))))),
       fresh w + 1 \<mapsto> PointsMaterial (size_p p),
       fresh w + 2 \<mapsto> Points (fresh w) (fresh w + 1))"
  using assms
  by (simp add: generateGalaxy_def new_obj_def publish_def scene_add_def Let_def
      remove_old_fields generate_Inr galaxy_loop_drawn zeroed_def)


lemma generateGalaxy_inv:
  assumes "galaxy_inv w" and "0 \<le> count p"
  shows "\<exists>w'. generateGalaxy p rnd w = (Inr (), w') \<and> galaxy_inv w' \<and>
    geometry w' = Some (fresh w) \<and> material w' = Some (fresh w + 1) \<and>
    points w' = Some (fresh w + 2) \<and> scene w' = Some [fresh w + 2] \<and>
    store w' (fresh w + 2) = Some (Points (fresh w) (fresh w + 1)) \<and>
    fresh w' = fresh w + 3 \<and>
    disposed w' = disposed (remove_old w) \<and>
    calls w' = calls (remove_old w) @ [SceneAdd (fresh w + 2)]"
proof -
  from assms(1) obtain ch where ch: "scene w = Some ch"
    by (auto simp: galaxy_inv_def split: option.splits)
  from generateGalaxy_returns [OF ch assms(2), of rnd] obtain w' where
    run: "generateGalaxy p rnd w = (Inr (), w')" and
    g: "geometry w' = Some (fresh w)" and m: "material w' = Some (fresh w + 1)" and
    pt: "points w' = Some (fresh w + 2)" and f: "fresh w' = fresh w + 3" and
    sc: "scene w' = map_option (\<lambda>ch. ch @ [fresh w + 2]) (scene (remove_old w))" and
    d: "disposed w' = disposed (remove_old w)" and
    c: "calls w' = calls (remove_old w) @ [SceneAdd (fresh w + 2)]" and
    st: "store w' (fresh w + 2) = Some (Points (fresh w) (fresh w + 1))"
    by auto
  have emptied: "scene (remove_old w) = Some []"
    using assms(1) by (auto simp: galaxy_inv_def remove_old_scene split: option.splits)
  have sc': "scene w' = Some [fresh w + 2]" using sc emptied by simp
  have below: "\<forall>x \<in> disposed (remove_old w). x < fresh w"
    using assms(1) by (auto simp: galaxy_inv_def remove_old_disposed split: option.splits)
  have "galaxy_inv w'"
    using below st by (auto simp: galaxy_inv_def g m pt f sc' d)
  with run g m pt sc' st f d c show ?thesis by blast
qed

lemma generateGalaxy_RangeError:
  assumes "scene w = Some ch" and "count p < 0"
  shows "generateGalaxy p rnd w =
    (Inl RangeError,
     (remove_old w)\<lparr>store := (store w)(fresh w \<mapsto> BufferGeometry None None),
                    fresh := Suc (fresh w), geometry := Some (fresh w)\<rparr>)"
  using assms
  by (simp add: generateGalaxy_def new_obj_def Let_def remove_old_fields generate_Inl)

section \<open>The claims\<close>

subsection \<open>C1: the positional jitter and randomnessPower\<close>

text \<open>
  C1. The claim is that the jitter of each axis is \<open>(u1 - 0.5)\<close> times the sign-preserving
  power of a second draw raised to \<open>randomnessPower\<close>, times \<open>randomness\<close> and \<open>radius_i\<close>, so
  that \<open>randomnessPower\<close> shapes the jitter. The code does not do this:
  \<^verbatim>\<open>generateGalaxy\<close> never reads \<open>randomnessPower\<close>, although line 21 declares it as the
  strength of the randomness and its control on the panel regenerates the galaxy (lines
  168 to 173). At the parameters of lines 14 to 24, with every draw \<open>1/4\<close>: moving
  \<open>randomnessPower\<close> from 3 to 10 leaves the whole result as it was, and the Y slot of
  particle 0 is \<open>(1/4 - 1/2) * 0.3 * 2.5 = -3/16\<close>, where the claimed jitter is \<open>-3/1024\<close>
  and changes with \<open>randomnessPower\<close>.
\<close>

theorem randomnessPower_ignored:
  "generate (default_parameters\<lparr>randomnessPower := 10\<rparr>) quarter_source 0 =
     generate default_parameters quarter_source 0 \<and>
   generate default_parameters quarter_source 0 =
     Inr (projr (generate default_parameters quarter_source 0)) \<and>
   positions (projr (generate default_parameters quarter_source 0)) ! 1 = Some (- (3 / 16)) \<and>
   spec_jitter default_parameters (1 / 4) (1 / 4) (1 / 4 * radius default_parameters) =
     - (3 / 1024) \<and>
   spec_jitter (default_parameters\<lparr>randomnessPower := 10\<rparr>) (1 / 4) (1 / 4)
       (1 / 4 * radius default_parameters) \<noteq>
     spec_jitter default_parameters (1 / 4) (1 / 4) (1 / 4 * radius default_parameters) \<and>
   positions (projr (generate default_parameters quarter_source 0)) ! 1 \<noteq>
     Some (spec_jitter default_parameters (1 / 4) (1 / 4) (1 / 4 * radius default_parameters))"
proof -
  have "int 0 < count default_parameters" by (simp add: default_parameters_def)
  from generate_particle [OF this, of quarter_source 0]
  have code: "generate default_parameters quarter_source 0 =
      Inr (projr (generate default_parameters quarter_source 0)) \<and>
    positions (projr (generate default_parameters quarter_source 0)) ! 1 = Some (- (3 / 16))"
    by (auto simp: default_parameters_def quarter_source_def)
  have spec3: "spec_jitter default_parameters (1 / 4) (1 / 4) (1 / 4 * radius default_parameters) =
      - (3 / 1024)"
    by (simp add: spec_jitter_def sign_preserving_power_def default_parameters_def
        power3_eq_cube)
  have spec10: "spec_jitter (default_parameters\<lparr>randomnessPower := 10\<rparr>) (1 / 4) (1 / 4)
       (1 / 4 * radius default_parameters) = - (3 / 16777216)"
    by (simp add: spec_jitter_def sign_preserving_power_def default_parameters_def
        power_divide)
  from code spec3 spec10 show ?thesis by (simp add: generate_randomnessPower)
qed

subsection \<open>C2: invalid parameters\<close>

text \<open>
  C2, as amended. \<^verbatim>\<open>generateGalaxy\<close> does not validate its parameters. Called with a
  scene and with \<open>count = 0\<close>, \<open>branches \<le> 0\<close> or \<open>radius \<le> 0\<close> (\<open>count\<close> not negative), it
  returns normally and swaps as always: the previous geometry and material are disposed,
  the previous points object is taken out of the scene, and a new points object with
  arrays of length \<open>count * 3\<close> becomes the active one and is added to the scene. With
  \<open>branches = 0\<close> the X and Z slots are \<^verbatim>\<open>NaN\<close>, with \<open>radius = 0\<close> the colour slots are.
\<close>

theorem no_parameter_validation:
  assumes "scene w = Some ch" and "0 \<le> count p"
    and "count p = 0 \<or> branches p \<le> 0 \<or> radius p \<le> 0"
  shows "\<exists>w' ps cs. generateGalaxy p rnd w = (Inr (), w') \<and> w' \<noteq> w \<and>
    geometry w' = Some (fresh w) \<and> material w' = Some (fresh w + 1) \<and>
    points w' = Some (fresh w + 2) \<and>
    store w' (fresh w) = Some (BufferGeometry (Some ps) (Some cs)) \<and>
    length ps = nat (count p * 3) \<and> length cs = nat (count p * 3) \<and>
    (case points w of
       None \<Rightarrow> scene w' = Some (ch @ [fresh w + 2]) \<and> disposed w' = disposed w
     | Some pr \<Rightarrow>
         scene w' = Some (remove1 pr ch @ [fresh w + 2]) \<and>
         disposed w' = disposed w \<union> set_option (geometry w) \<union> set_option (material w)) \<and>
    (branches p = 0 \<longrightarrow>
       (\<forall>i. int i < count p \<longrightarrow> ps ! (3 * i) = None \<and> ps ! (3 * i + 2) = None)) \<and>
    (radius p = 0 \<longrightarrow>
       (\<forall>i. int i < count p \<longrightarrow>
          cs ! (3 * i) = None \<and> cs ! (3 * i + 1) = None \<and> cs ! (3 * i + 2) = None))"
proof -
  let ?s = "galaxy_loop p rnd 0 (zeroed p (rng w))"
  from generateGalaxy_returns [OF assms(1,2), of rnd] obtain w' where
    run: "generateGalaxy p rnd w = (Inr (), w')" and
    g: "geometry w' = Some (fresh w)" and m: "material w' = Some (fresh w + 1)" and
    pt: "points w' = Some (fresh w + 2)" and f: "fresh w' = fresh w + 3" and
    sc: "scene w' = map_option (\<lambda>ch. ch @ [fresh w + 2]) (scene (remove_old w))" and
    d: "disposed w' = disposed (remove_old w)" and
    st: "store w' (fresh w) = Some (BufferGeometry (Some (positions ?s)) (Some (colors ?s)))"
    by auto
  have changed: "w' \<noteq> w" using f by auto
  have len: "length (positions ?s) = nat (count p * 3)" "length (colors ?s) = nat (count p * 3)"
    by (simp_all add: galaxy_loop_length zeroed_def)
  have swap: "case points w of
       None \<Rightarrow> scene w' = Some (ch @ [fresh w + 2]) \<and> disposed w' = disposed w
     | Some pr \<Rightarrow>
         scene w' = Some (remove1 pr ch @ [fresh w + 2]) \<and>
         disposed w' = disposed w \<union> set_option (geometry w) \<union> set_option (material w)"
    using assms(1) by (simp add: sc d remove_old_scene remove_old_disposed split: option.splits)
  have gen: "generate p rnd (rng w) = Inr ?s" using assms(2) by (rule generate_Inr)
  have nan_pos: "positions ?s ! (3 * i) = None \<and> positions ?s ! (3 * i + 2) = None"
    if "branches p = 0" "int i < count p" for i
    using generate_particle [OF that(2), of rnd "rng w"] that(1) gen
    by (simp add: branchAngle_def)
  have nan_col: "colors ?s ! (3 * i) = None \<and> colors ?s ! (3 * i + 1) = None \<and>
      colors ?s ! (3 * i + 2) = None"
    if "radius p = 0" "int i < count p" for i
    using generate_particle [OF that(2), of rnd "rng w"] that(1) gen
    by simp
  from run changed g m pt st len swap nan_pos nan_col show ?thesis by blast
qed

text \<open>A galaxy on display, then a call with \<open>count\<close>, \<open>branches\<close> and \<open>radius\<close> all 0.\<close>

theorem no_parameter_validation_witness:
  "scene active_world = Some [2] \<and> count invalid_parameters = 0 \<and>
   branches invalid_parameters \<le> 0 \<and> radius invalid_parameters \<le> 0 \<and>
   (\<exists>w'. generateGalaxy invalid_parameters half_source active_world = (Inr (), w') \<and>
      w' \<noteq> active_world \<and> points w' = Some 5 \<and> scene w' = Some [5] \<and>
      disposed w' = {0, 1})"
proof -
  have sc: "scene active_world = Some [2]" by (simp add: active_world_def)
  have c: "0 \<le> count invalid_parameters" by (simp add: invalid_parameters_def)
  have bad: "count invalid_parameters = 0 \<or> branches invalid_parameters \<le> 0 \<or>
      radius invalid_parameters \<le> 0"
    by (simp add: invalid_parameters_def)
  from no_parameter_validation [OF sc c bad, of half_source] show ?thesis
    by (auto simp: active_world_def invalid_parameters_def)
qed

text \<open>
  C2 as it was stated fails: with \<open>count = 0\<close>, \<open>branches = 0\<close> and \<open>radius = 0\<close> the call
  returns without an error, and the state is not the one before: the renderable 2 has
  been replaced by the renderable 5 and its resources 0 and 1 are disposed.
\<close>

theorem invalid_parameters_counterexample:
  "count invalid_parameters \<le> 0 \<and> branches invalid_parameters \<le> 0 \<and>
   radius invalid_parameters \<le> 0 \<and>
   fst (generateGalaxy invalid_parameters half_source active_world) = Inr () \<and>
   snd (generateGalaxy invalid_parameters half_source active_world) \<noteq> active_world \<and>
   points (snd (generateGalaxy invalid_parameters half_source active_world)) = Some 5 \<and>
   scene (snd (generateGalaxy invalid_parameters half_source active_world)) = Some [5] \<and>
   disposed (snd (generateGalaxy invalid_parameters half_source active_world)) = {0, 1}"
proof -
  have sc: "scene active_world = Some [2]" by (simp add: active_world_def)
  have c: "0 \<le> count invalid_parameters" by (simp add: invalid_parameters_def)
  from generateGalaxy_returns [OF sc c, of half_source] obtain w' where
    run: "generateGalaxy invalid_parameters half_source active_world = (Inr (), w')" and
    w': "points w' = Some (fresh active_world + 2)" "fresh w' = fresh active_world + 3"
      "scene w' = map_option (\<lambda>ch. ch @ [fresh active_world + 2]) (scene (remove_old active_world))"
      "disposed w' = disposed (remove_old active_world)"
    by auto
  have "w' \<noteq> active_world" using w'(2) by auto
  moreover have "points w' = Some 5" using w'(1) by (simp add: active_world_def)
  moreover have "scene w' = Some [5]"
    using w'(3) by (simp add: remove_old_scene active_world_def)
  moreover have "disposed w' = {0, 1}"
    using w'(4) by (auto simp: remove_old_disposed active_world_def)
  ultimately show ?thesis using run by (simp add: invalid_parameters_def)
qed

subsection \<open>C3: both arrays have length count * 3 and every slot is written\<close>

text \<open>
  C3. For every parameter set with \<open>count > 0\<close>, \<open>generate\<close> returns arrays
  \<open>positions\<close> and \<open>colors\<close> of length exactly \<open>count * 3\<close>, and no slot keeps its
  initial content: slot \<open>m\<close> holds what the loop body of particle \<open>m div 3\<close> stores there,
  whatever the arrays held before (\<open>t\<close> is any state of the right lengths at that
  particle's first draw).
\<close>

theorem generate_fills_buffers:
  assumes "0 < count p"
  shows "\<exists>s. generate p rnd k = Inr s \<and>
    length (positions s) = nat (count p * 3) \<and>
    length (colors s) = nat (count p * 3) \<and>
    (\<forall>m t. m < nat (count p * 3) \<and> drawn t = k + 4 * (m div 3) \<and>
        length (positions t) = nat (count p * 3) \<and> length (colors t) = nat (count p * 3) \<longrightarrow>
        positions s ! m = positions (loop_body p rnd (m div 3) t) ! m \<and>
        colors s ! m = colors (loop_body p rnd (m div 3) t) ! m)"
proof -
  let ?s = "galaxy_loop p rnd 0 (zeroed p k)"
  have gen: "generate p rnd k = Inr ?s" using assms by (intro generate_Inr) simp
  have len: "length (positions ?s) = nat (count p * 3)" "length (colors ?s) = nat (count p * 3)"
    by (simp_all add: galaxy_loop_length zeroed_def)
  have slots: "positions ?s ! m = positions (loop_body p rnd (m div 3) t) ! m \<and>
        colors ?s ! m = colors (loop_body p rnd (m div 3) t) ! m"
    if m: "m < nat (count p * 3)" and t: "drawn t = k + 4 * (m div 3)"
      "length (positions t) = nat (count p * 3)" "length (colors t) = nat (count p * 3)"
    for m t
  proof -
    have j: "int (m div 3) < count p" using m by (simp add: nat_count3)
    have c: "m mod 3 < 3" by simp
    have "3 * (m div 3) + m mod 3 = m" by simp
    with generate_slot [OF j c t, of rnd] show ?thesis by simp
  qed
  from gen len slots show ?thesis by blast
qed

text \<open>Nine particles: 27 slots in each array.\<close>

theorem generate_fills_buffers_witness:
  "0 < count nine_parameters \<and>
   (\<exists>s. generate nine_parameters half_source 0 = Inr s \<and>
        length (positions s) = 27 \<and> length (colors s) = 27)"
  using generate_fills_buffers [of nine_parameters half_source 0]
  by (auto simp: nine_parameters_def)

subsection \<open>C4: arms are assigned round-robin\<close>

text \<open>
  C4. For every particle index \<open>i\<close> below \<open>count\<close> (and \<open>branches > 0\<close>) the branch angle
  is \<open>(i mod branches) / branches * 2\<pi>\<close>, and the particle that \<open>generate\<close> stores at
  index \<open>i\<close> lies on the arm of that angle; the angle is a function of the index and of
  \<open>branches\<close> alone, whatever the random source returns. With \<open>branches = 3\<close> and
  \<open>count = 9\<close>, particles 0, 3, 6 lie on the arm of angle 0, particles 1, 4, 7 on that of
  \<open>2\<pi>/3\<close> and particles 2, 5, 8 on that of \<open>4\<pi>/3\<close>.
\<close>

theorem particle_arm_round_robin:
  "(int i < count p \<and> 0 < branches p \<longrightarrow>
      branchAngle p i =
        Some (real_of_int (int i mod branches p) / real_of_int (branches p) * (2 * pi)) \<and>
      (\<exists>s. generate p rnd k = Inr s \<and>
           on_arm p rnd k s i
             (real_of_int (int i mod branches p) / real_of_int (branches p) * (2 * pi)))) \<and>
   (count p = 9 \<and> branches p = 3 \<longrightarrow>
      (\<exists>s. generate p rnd k = Inr s \<and>
           on_arm p rnd k s 0 0 \<and> on_arm p rnd k s 3 0 \<and> on_arm p rnd k s 6 0 \<and>
           on_arm p rnd k s 1 (2 * pi / 3) \<and> on_arm p rnd k s 4 (2 * pi / 3) \<and>
           on_arm p rnd k s 7 (2 * pi / 3) \<and>
           on_arm p rnd k s 2 (4 * pi / 3) \<and> on_arm p rnd k s 5 (4 * pi / 3) \<and>
           on_arm p rnd k s 8 (4 * pi / 3)))"
proof (rule conjI; rule impI)
  assume h: "int i < count p \<and> 0 < branches p"
  then have "branchAngle p i =
      Some (real_of_int (int i mod branches p) / real_of_int (branches p) * (2 * pi))"
    by (simp add: branchAngle_def smod_nat_pos)
  moreover from h generate_on_arm [of i p rnd k]
  have "\<exists>s. generate p rnd k = Inr s \<and>
      on_arm p rnd k s i (real_of_int (int i mod branches p) / real_of_int (branches p) * (2 * pi))"
    by blast
  ultimately show "branchAngle p i =
        Some (real_of_int (int i mod branches p) / real_of_int (branches p) * (2 * pi)) \<and>
      (\<exists>s. generate p rnd k = Inr s \<and>
           on_arm p rnd k s i
             (real_of_int (int i mod branches p) / real_of_int (branches p) * (2 * pi)))"
    by blast
next
  assume h: "count p = 9 \<and> branches p = 3"
  let ?s = "galaxy_loop p rnd 0 (zeroed p k)"
  have b: "0 < branches p" using h by simp
  have arm: "on_arm p rnd k ?s i (real_of_int (int i mod 3) / 3 * (2 * pi))" if "i < 9" for i
    using generate_on_arm [of i p rnd k] that h by simp
  have gen: "generate p rnd k = Inr ?s" using generate_on_arm [of 0 p rnd k] h by simp
  have "on_arm p rnd k ?s 0 0" "on_arm p rnd k ?s 3 0" "on_arm p rnd k ?s 6 0"
    "on_arm p rnd k ?s 1 (2 * pi / 3)" "on_arm p rnd k ?s 4 (2 * pi / 3)"
    "on_arm p rnd k ?s 7 (2 * pi / 3)"
    "on_arm p rnd k ?s 2 (4 * pi / 3)" "on_arm p rnd k ?s 5 (4 * pi / 3)"
    "on_arm p rnd k ?s 8 (4 * pi / 3)"
    using arm [of 0] arm [of 3] arm [of 6] arm [of 1] arm [of 4] arm [of 7]
      arm [of 2] arm [of 5] arm [of 8]
    by simp_all
  with gen show "\<exists>s. generate p rnd k = Inr s \<and>
           on_arm p rnd k s 0 0 \<and> on_arm p rnd k s 3 0 \<and> on_arm p rnd k s 6 0 \<and>
           on_arm p rnd k s 1 (2 * pi / 3) \<and> on_arm p rnd k s 4 (2 * pi / 3) \<and>
           on_arm p rnd k s 7 (2 * pi / 3) \<and>
           on_arm p rnd k s 2 (4 * pi / 3) \<and> on_arm p rnd k s 5 (4 * pi / 3) \<and>
           on_arm p rnd k s 8 (4 * pi / 3)"
    by blast
qed

text \<open>Particle 7 of the nine-particle, three-arm parameter set, every draw \<open>1/2\<close>.\<close>

theorem particle_arm_round_robin_witness:
  "int 7 < count nine_parameters \<and> 0 < branches nine_parameters \<and>
   count nine_parameters = 9 \<and> branches nine_parameters = 3 \<and>
   branchAngle nine_parameters 7 = Some (2 * pi / 3) \<and>
   (\<exists>s. generate nine_parameters half_source 0 = Inr s \<and>
        on_arm nine_parameters half_source 0 s 7 (2 * pi / 3) \<and>
        positions s ! 21 = Some (cos (2 * pi / 3 + 5) * 5) \<and>
        positions s ! 23 = Some (sin (2 * pi / 3 + 5) * 5))"
proof -
  have h: "count nine_parameters = 9 \<and> branches nine_parameters = 3"
    by (simp add: nine_parameters_def)
  from particle_arm_round_robin [of 7 nine_parameters half_source 0] h
  obtain s where s: "generate nine_parameters half_source 0 = Inr s"
    "on_arm nine_parameters half_source 0 s 7 (2 * pi / 3)"
    by blast
  from s(2) have "positions s ! 21 = Some (cos (2 * pi / 3 + 5) * 5)"
    "positions s ! 23 = Some (sin (2 * pi / 3 + 5) * 5)"
    by (simp_all add: on_arm_def Let_def nine_parameters_def half_source_def)
  moreover have "branchAngle nine_parameters 7 = Some (2 * pi / 3)"
    using particle_arm_round_robin [of 7 nine_parameters half_source 0]
    by (simp add: nine_parameters_def)
  ultimately show ?thesis using s h by (auto simp: nine_parameters_def)
qed

subsection \<open>C5: the stored position\<close>

text \<open>
  C5. For every particle index \<open>i\<close>, with \<open>radius_i\<close> the particle's first draw times
  \<open>radius\<close> and \<open>spinAngle = radius_i * spin\<close>, the stored position is
  \<open>x = cos (branchAngle + spinAngle) * radius_i + jitter_x\<close>, \<open>y = jitter_y\<close> and
  \<open>z = sin (branchAngle + spinAngle) * radius_i + jitter_z\<close>, the jitters being the values
  the source names \<^verbatim>\<open>randomX\<close>, \<^verbatim>\<open>randomY\<close>, \<^verbatim>\<open>randomZ\<close>. With \<open>branches = 0\<close> the
  angle, and with it \<open>x\<close> and \<open>z\<close>, is \<^verbatim>\<open>NaN\<close>.
\<close>

theorem particle_position:
  assumes "int i < count p"
  shows "\<exists>s. generate p rnd k = Inr s \<and>
    (let radius_i = rnd (k + 4 * i) * radius p;
         spinAngle = radius_i * spin p;
         jitter_x = (rnd (k + 4 * i + 1) - 0.5) * randomness p * radius_i;
         jitter_y = (rnd (k + 4 * i + 2) - 0.5) * randomness p * radius_i;
         jitter_z = (rnd (k + 4 * i + 3) - 0.5) * randomness p * radius_i
     in positions s ! (3 * i) =
          map_option (\<lambda>a. cos (a + spinAngle) * radius_i + jitter_x) (branchAngle p i) \<and>
        positions s ! (3 * i + 1) = Some jitter_y \<and>
        positions s ! (3 * i + 2) =
          map_option (\<lambda>a. sin (a + spinAngle) * radius_i + jitter_z) (branchAngle p i))"
  using generate_particle [OF assms, of rnd k] by (auto simp: Let_def)

text \<open>Particle 4 of nine, every draw \<open>1/2\<close>: arm 1 of 3, radius 5, no jitter.\<close>

theorem particle_position_witness:
  "int 4 < count nine_parameters \<and>
   (\<exists>s. generate nine_parameters half_source 0 = Inr s \<and>
        positions s ! 12 = Some (cos (pi * 2 / 3 + 5) * 5) \<and>
        positions s ! 13 = Some 0 \<and>
        positions s ! 14 = Some (sin (pi * 2 / 3 + 5) * 5))"
  using particle_position [of 4 nine_parameters half_source 0]
  by (auto simp: nine_parameters_def half_source_def Let_def branchAngle_def signed_modulo_int_def)

subsection \<open>C6: the colour\<close>

text \<open>
  C6. For every particle index \<open>i\<close> (with \<open>radius\<close> not 0) the stored colour is, channel
  by channel, \<open>insideColor + (outsideColor - insideColor) * t\<close> with
  \<open>t = radius_i / radius\<close>; a particle with \<open>radius_i = 0\<close> gets exactly \<open>insideColor\<close> and
  one with \<open>radius_i = radius\<close> exactly \<open>outsideColor\<close>. The interpolation itself is
  \<open>lerp\<close>, taken from the specification.
\<close>

theorem particle_color:
  assumes "int i < count p" and "radius p \<noteq> 0"
  shows "\<exists>s. generate p rnd k = Inr s \<and>
    (let radius_i = rnd (k + 4 * i) * radius p;
         t = radius_i / radius p
     in colors s ! (3 * i) = Some (r (insideColor p) + (r (outsideColor p) - r (insideColor p)) * t) \<and>
        colors s ! (3 * i + 1) = Some (g (insideColor p) + (g (outsideColor p) - g (insideColor p)) * t) \<and>
        colors s ! (3 * i + 2) = Some (b (insideColor p) + (b (outsideColor p) - b (insideColor p)) * t) \<and>
        (radius_i = 0 \<longrightarrow>
           Color (the (colors s ! (3 * i))) (the (colors s ! (3 * i + 1))) (the (colors s ! (3 * i + 2)))
             = insideColor p) \<and>
        (radius_i = radius p \<longrightarrow>
           Color (the (colors s ! (3 * i))) (the (colors s ! (3 * i + 1))) (the (colors s ! (3 * i + 2)))
             = outsideColor p))"
proof -
  define t where "t = rnd (k + 4 * i) * radius p / radius p"
  from generate_particle [OF assms(1), of rnd k] obtain s where
    s: "generate p rnd k = Inr s" and
    c0: "colors s ! (3 * i) = Some (r (insideColor p) + (r (outsideColor p) - r (insideColor p)) * t)" and
    c1: "colors s ! (3 * i + 1) = Some (g (insideColor p) + (g (outsideColor p) - g (insideColor p)) * t)" and
    c2: "colors s ! (3 * i + 2) = Some (b (insideColor p) + (b (outsideColor p) - b (insideColor p)) * t)"
    using assms(2) unfolding t_def by auto
  have inside: "Color (the (colors s ! (3 * i))) (the (colors s ! (3 * i + 1))) (the (colors s ! (3 * i + 2)))
             = insideColor p" if "rnd (k + 4 * i) * radius p = 0"
  proof -
    from that have "t = 0" unfolding t_def by (simp only: div_0)
    with c0 c1 c2 show ?thesis by simp
  qed
  have outside: "Color (the (colors s ! (3 * i))) (the (colors s ! (3 * i + 1))) (the (colors s ! (3 * i + 2)))
             = outsideColor p" if "rnd (k + 4 * i) * radius p = radius p"
  proof -
    have "t = radius p / radius p" unfolding t_def by (simp only: that)
    with assms(2) have "t = 1" by simp
    with c0 c1 c2 show ?thesis by simp
  qed
  show ?thesis
    unfolding Let_def t_def [symmetric] using s c0 c1 c2 inside outside by blast
qed

text \<open>Particle 4 of nine with every draw \<open>1/2\<close>: the colour half way.\<close>

theorem particle_color_witness:
  "int 4 < count nine_parameters \<and> radius nine_parameters \<noteq> 0 \<and>
   (\<exists>s. generate nine_parameters half_source 0 = Inr s \<and>
        colors s ! 12 = Some (1 / 2) \<and> colors s ! 13 = Some (4 / 15) \<and>
        colors s ! 14 = Some (4 / 15))"
  using particle_color [of 4 nine_parameters half_source 0]
  by (auto simp: nine_parameters_def half_source_def Let_def)

subsection \<open>C7: the result is determined by the parameters and the draws\<close>

text \<open>
  C7. Two runs of \<open>generate\<close> with the same parameters, whose random sources return the
  same sequence of values for the \<open>4 * count\<close> draws a run makes (the first run from its
  draw \<open>k\<close> on, the second from its draw \<open>k'\<close> on), give the same \<open>positions\<close> and
  \<open>colors\<close> arrays, or the same error.
\<close>

theorem generate_deterministic:
  assumes "\<forall>n < 4 * nat (count p). rnd (k + n) = rnd' (k' + n)"
  shows "map_sum id buffers (generate p rnd k) = map_sum id buffers (generate p rnd' k')"
proof -
  have agree: "\<forall>n < 4 * nat (count p). (\<lambda>n. rnd (n + k)) (0 + n) = (\<lambda>n. rnd' (n + k')) (0 + n)"
    using assms by (simp add: add.commute)
  have "generate p (\<lambda>n. rnd (n + k)) 0 = generate p (\<lambda>n. rnd' (n + k')) 0"
  proof (cases "0 \<le> count p")
    case True
    have "galaxy_loop p (\<lambda>n. rnd (n + k)) 0 (zeroed p 0) =
          galaxy_loop p (\<lambda>n. rnd' (n + k')) 0 (zeroed p 0)"
      using agree by (intro galaxy_loop_cong) (simp add: zeroed_def)
    with True show ?thesis by (simp add: generate_Inr)
  next
    case False
    then show ?thesis by (simp add: generate_Inl)
  qed
  then show ?thesis
    using generate_shift [of p rnd k] generate_shift [of p rnd' k'] by simp
qed

text \<open>
  A source whose draws from the ninth on are those of another source from the first on,
  for the four draws of a one-particle run; the two differ after.
\<close>

theorem generate_deterministic_witness:
  "quarter_source 8 = quarter_then_half 0 \<and> quarter_source 9 = quarter_then_half 1 \<and>
   quarter_source 10 = quarter_then_half 2 \<and> quarter_source 11 = quarter_then_half 3 \<and>
   quarter_source 12 \<noteq> quarter_then_half 4 \<and>
   map_sum id buffers (generate jitter_parameters quarter_source 8) =
     map_sum id buffers (generate jitter_parameters quarter_then_half 0)"
proof -
  have agree: "\<forall>n < 4 * nat (count jitter_parameters). quarter_source (8 + n) = quarter_then_half (0 + n)"
    by (simp add: jitter_parameters_def quarter_source_def quarter_then_half_def)
  have drawn_values: "quarter_source 8 = quarter_then_half 0" "quarter_source 9 = quarter_then_half 1"
    "quarter_source 10 = quarter_then_half 2" "quarter_source 11 = quarter_then_half 3"
    "quarter_source 12 \<noteq> quarter_then_half 4"
    by (simp_all add: quarter_source_def quarter_then_half_def)
  from generate_deterministic [OF agree] drawn_values show ?thesis
    by blast
qed

subsection \<open>C8: two calls in sequence\<close>

text \<open>
  C8. Two calls of \<^verbatim>\<open>generateGalaxy\<close> in sequence (from a state of the kind described by
  \<open>galaxy_inv\<close>, with \<open>count\<close> not negative) both return; after the second the scene holds
  exactly one points object, the new one, which is also the active one; the geometry and
  the material of the first call are disposed and those of the second are not; and the
  second call's actions are, in this order, dispose the first geometry, dispose the
  first material, remove the first points object from the scene, add the second.
\<close>

theorem regenerate_twice:
  assumes "galaxy_inv w0" and "0 \<le> count p1" and "0 \<le> count p2"
  shows "\<exists>w1 w2 g1 m1 pr1 g2 m2 pr2.
    generateGalaxy p1 rnd w0 = (Inr (), w1) \<and> generateGalaxy p2 rnd w1 = (Inr (), w2) \<and>
    geometry w1 = Some g1 \<and> material w1 = Some m1 \<and> points w1 = Some pr1 \<and>
    scene w1 = Some [pr1] \<and>
    geometry w2 = Some g2 \<and> material w2 = Some m2 \<and> points w2 = Some pr2 \<and>
    scene w2 = Some [pr2] \<and> store w2 pr2 = Some (Points g2 m2) \<and>
    pr2 \<noteq> pr1 \<and> g2 \<noteq> g1 \<and> m2 \<noteq> m1 \<and>
    g1 \<in> disposed w2 \<and> m1 \<in> disposed w2 \<and> g2 \<notin> disposed w2 \<and> m2 \<notin> disposed w2 \<and>
    calls w2 = calls w1 @ [GeometryDispose g1, MaterialDispose m1, SceneRemove pr1, SceneAdd pr2]"
proof -
  from generateGalaxy_inv [OF assms(1,2), of rnd] obtain w1 where
    run1: "generateGalaxy p1 rnd w0 = (Inr (), w1)" and inv1: "galaxy_inv w1" and
    g1: "geometry w1 = Some (fresh w0)" and m1: "material w1 = Some (fresh w0 + 1)" and
    pt1: "points w1 = Some (fresh w0 + 2)" and sc1: "scene w1 = Some [fresh w0 + 2]" and
    f1: "fresh w1 = fresh w0 + 3"
    by blast
  from generateGalaxy_inv [OF inv1 assms(3), of rnd] obtain w2 where
    run2: "generateGalaxy p2 rnd w1 = (Inr (), w2)" and inv2: "galaxy_inv w2" and
    g2: "geometry w2 = Some (fresh w1)" and m2: "material w2 = Some (fresh w1 + 1)" and
    pt2: "points w2 = Some (fresh w1 + 2)" and sc2: "scene w2 = Some [fresh w1 + 2]" and
    st2: "store w2 (fresh w1 + 2) = Some (Points (fresh w1) (fresh w1 + 1))" and
    d2: "disposed w2 = disposed (remove_old w1)" and
    c2: "calls w2 = calls (remove_old w1) @ [SceneAdd (fresh w1 + 2)]"
    by blast
  have disp: "disposed w2 = disposed w1 \<union> {fresh w0, fresh w0 + 1}"
    using d2 by (auto simp: remove_old_disposed pt1 g1 m1)
  have old: "fresh w0 \<in> disposed w2" "fresh w0 + 1 \<in> disposed w2"
    using disp by simp_all
  have "\<forall>x \<in> disposed w1. x < fresh w1" using inv1 by (simp add: galaxy_inv_def)
  then have new: "fresh w1 \<notin> disposed w2" "fresh w1 + 1 \<notin> disposed w2"
    using disp f1 by auto
  have trace: "calls w2 = calls w1 @ [GeometryDispose (fresh w0), MaterialDispose (fresh w0 + 1),
      SceneRemove (fresh w0 + 2), SceneAdd (fresh w1 + 2)]"
    using c2 by (simp add: remove_old_calls pt1 g1 m1)
  have distinct: "fresh w1 + 2 \<noteq> fresh w0 + 2" "fresh w1 \<noteq> fresh w0" "fresh w1 + 1 \<noteq> fresh w0 + 1"
    using f1 by simp_all
  from run1 run2 g1 m1 pt1 sc1 g2 m2 pt2 sc2 st2 distinct old new trace
  show ?thesis by blast
qed

text \<open>From the empty scene: nine particles, then none.\<close>

theorem regenerate_twice_witness:
  "galaxy_inv mounted_world \<and> 0 \<le> count nine_parameters \<and>
   0 \<le> count (nine_parameters\<lparr>count := 0\<rparr>) \<and>
   (\<exists>w1 w2. generateGalaxy nine_parameters half_source mounted_world = (Inr (), w1) \<and>
      generateGalaxy (nine_parameters\<lparr>count := 0\<rparr>) half_source w1 = (Inr (), w2) \<and>
      scene w1 = Some [2] \<and> points w1 = Some 2 \<and>
      scene w2 = Some [5] \<and> points w2 = Some 5 \<and> disposed w2 = {0, 1} \<and>
      calls w2 = [SceneAdd 2, GeometryDispose 0, MaterialDispose 1, SceneRemove 2, SceneAdd 5])"
proof -
  have inv: "galaxy_inv mounted_world"
    by (simp add: galaxy_inv_def mounted_world_def unmounted_world_def)
  have c1: "0 \<le> count nine_parameters" by (simp add: nine_parameters_def)
  have c2: "0 \<le> count (nine_parameters\<lparr>count := 0\<rparr>)" by simp
  from regenerate_twice [OF inv c1 c2, of half_source] obtain w1 w2 g1 m1 pr1 g2 m2 pr2 where
    run: "generateGalaxy nine_parameters half_source mounted_world = (Inr (), w1)"
      "generateGalaxy (nine_parameters\<lparr>count := 0\<rparr>) half_source w1 = (Inr (), w2)" and
    facts: "geometry w1 = Some g1" "material w1 = Some m1" "points w1 = Some pr1"
      "scene w1 = Some [pr1]" "points w2 = Some pr2" "scene w2 = Some [pr2]"
      "calls w2 = calls w1 @ [GeometryDispose g1, MaterialDispose m1, SceneRemove pr1, SceneAdd pr2]"
    by blast
  have sc: "scene mounted_world = Some []" by (simp add: mounted_world_def)
  from generateGalaxy_returns [OF sc c1, of half_source] run(1)
  have w1: "geometry w1 = Some 0" "material w1 = Some 1" "points w1 = Some 2" "fresh w1 = 3"
    "disposed w1 = {}" "calls w1 = [SceneAdd 2]"
    by (simp_all add: mounted_world_def unmounted_world_def remove_old_def)
  from facts(4) have sc1: "scene w1 = Some [pr1]" .
  from generateGalaxy_returns [OF sc1 c2, of half_source] run(2)
  have w2: "points w2 = Some 5" "disposed w2 = {0, 1}"
    by (auto simp: w1 remove_old_disposed)
  from run facts w1 w2 inv c1 c2 show ?thesis by auto
qed

subsection \<open>C10: no scene\<close>

text \<open>
  C10. If \<^verbatim>\<open>scene\<close> is \<^verbatim>\<open>null\<close>, \<^verbatim>\<open>generateGalaxy\<close> returns at once and the state is
  the one before: the renderable, its geometry and its material are the same, nothing
  is disposed, nothing is allocated, no draw is made.
\<close>

theorem generateGalaxy_no_scene:
  assumes "scene w = None"
  shows "generateGalaxy p rnd w = (Inr (), w)"
  using assms by (simp add: generateGalaxy_def)

text \<open>A state with a renderable and no scene.\<close>

theorem generateGalaxy_no_scene_witness:
  "scene (active_world\<lparr>scene := None\<rparr>) = None \<and>
   generateGalaxy nine_parameters half_source (active_world\<lparr>scene := None\<rparr>) =
     (Inr (), active_world\<lparr>scene := None\<rparr>)"
  using generateGalaxy_no_scene [of "active_world\<lparr>scene := None\<rparr>" nine_parameters half_source]
  by simp

end
